theory Spec2Isabelle
  imports Main
begin

section \<open>Data model (main.go)\<close>

text \<open>
  Bytes of the input buffer are \<open>char\<close>s (8-bit), a Go \<open>rune\<close> is an \<open>int\<close>.
  \<open>jsonElement\<close> is a kind tag with a payload of type \<open>any\<close> in the source; the parser
  only ever builds the six consistent combinations, which are the constructors below
  (named after the kind constants). A \<open>pair\<close> is the struct of a key and a value.
\<close>

type_synonym rune = int

datatype jsonElement =
    objectKind "(string \<times> jsonElement) list"
  | arrayKind "jsonElement list"
  | stringKind string
  | numberKind string
  | booleanKind bool
  | nullKind

type_synonym pair = "string \<times> jsonElement"

text \<open>
  The reader. \<open>line\<close>, \<open>col\<close> and \<open>offset\<close> are Go \<open>int\<close>s that only ever grow
  from 1, 0 and 0 by at most the buffer length, so they are modelled as \<open>nat\<close>.
\<close>

record reader =
  s :: string
  line :: nat
  col :: nat
  offset :: nat

text \<open>
  Errors. \<open>syntaxError\<close> wraps a description with the reader's line and column; the
  descriptions built with \<open>fmt.Errorf\<close> are kept structured instead of formatted.
  \<open>Panic\<close> stands for a Go run-time panic, \<open>OutOfFuel\<close> for the recursion bound of the
  model (see \<open>parseValue\<close>).
\<close>

datatype description =
    Expected string rune
  | UnexpectedToken rune
  | ExpectedObjectMember
  | UnescapedSpecial rune
  | InvalidEscape rune
  | ExpectedQuoteButEof
  | ExpectedDigitAfterFraction
  | ExpectedDigitAfterExponent

datatype error =
    SyntaxError nat nat description
  | Panic
  | OutOfFuel

definition rune :: "char \<Rightarrow> rune" where
  "rune c = int (of_char c)"

section \<open>The Go library functions the scanner calls\<close>

definition RuneError :: rune where
  "RuneError = 65533"

text \<open>
  \<open>utf8.DecodeRune\<close> of the Go standard library, transcribed with its table of first
  bytes and accept ranges written as comparisons: the first rune of a byte slice and its
  width; \<open>(RuneError, 1)\<close> for a malformed or truncated encoding, \<open>(RuneError, 0)\<close>
  for the empty slice.
\<close>

definition DecodeRune :: "string \<Rightarrow> rune \<times> nat" where
  "DecodeRune p =
    (case p of
       [] \<Rightarrow> (RuneError, 0)
     | c0 # q \<Rightarrow>
        (let p0 = (of_char c0 :: nat) in
         if p0 < 128 then (int p0, 1)
         else if p0 < 194 \<or> 245 \<le> p0 then (RuneError, 1)
         else
          (let sz = (if p0 < 224 then 2 else if p0 < 240 then 3 else 4 :: nat);
               lo = (if p0 = 224 then 160 else if p0 = 240 then 144 else 128 :: nat);
               hi = (if p0 = 237 then 159 else if p0 = 244 then 143 else 191 :: nat)
           in if length p < sz then (RuneError, 1)
              else
               (let b1 = (of_char (p ! 1) :: nat) in
                if b1 < lo \<or> hi < b1 then (RuneError, 1)
                else if sz \<le> 2 then (int ((p0 mod 32) * 64 + b1 mod 64), 2)
                else
                 (let b2 = (of_char (p ! 2) :: nat) in
                  if b2 < 128 \<or> 191 < b2 then (RuneError, 1)
                  else if sz \<le> 3
                  then (int ((p0 mod 16) * 4096 + (b1 mod 64) * 64 + b2 mod 64), 3)
                  else
                   (let b3 = (of_char (p ! 3) :: nat) in
                    if b3 < 128 \<or> 191 < b3 then (RuneError, 1)
                    else (int ((p0 mod 8) * 262144 + (b1 mod 64) * 4096
                               + (b2 mod 64) * 64 + b3 mod 64), 4)))))))"

text \<open>
  \<open>strings.Builder.WriteRune\<close> appends the UTF-8 encoding of the rune
  (\<open>utf8.AppendRune\<close>); a negative rune, a surrogate or a rune beyond U+10FFFF is
  written as U+FFFD.
\<close>

definition WriteRune :: "string \<Rightarrow> rune \<Rightarrow> string" where
  "WriteRune sb v =
    (if 0 \<le> v \<and> v < 128 then sb @ [char_of v]
     else if 0 \<le> v \<and> v < 2048
       then sb @ [char_of (192 + v div 64), char_of (128 + v mod 64)]
     else if v < 0 \<or> 1114111 < v \<or> (55296 \<le> v \<and> v \<le> 57343)
       then sb @ [char_of (239::nat), char_of (191::nat), char_of (189::nat)]
     else if v < 65536
       then sb @ [char_of (224 + v div 4096), char_of (128 + (v div 64) mod 64),
                  char_of (128 + v mod 64)]
     else sb @ [char_of (240 + v div 262144), char_of (128 + (v div 4096) mod 64),
                char_of (128 + (v div 64) mod 64), char_of (128 + v mod 64)])"

section \<open>Scanner (main.go, reader)\<close>

definition isEOF :: "reader \<Rightarrow> bool" where
  "isEOF r = (offset r \<ge> length (s r))"

definition peek :: "reader \<Rightarrow> rune \<times> nat" where
  "peek r =
    (if isEOF r then (0, 0)
     else
      (let v = rune (s r ! offset r) in
       if v \<ge> 128 then
        (let (v', size') = DecodeRune (drop (offset r) (s r)) in
         if v' = RuneError \<and> size' = 1 then (rune (s r ! offset r), size')
         else (v', size'))
       else (v, 1)))"

definition read :: "reader \<Rightarrow> rune \<times> reader" where
  "read r =
    (let (v, sz) = peek r in
     if isEOF r then (v, r)
     else (v, (if v = rune CHR 0x0A then r\<lparr>col := 0, line := line r + 1\<rparr>
               else r\<lparr>col := col r + 1\<rparr>)\<lparr>offset := offset r + sz\<rparr>))"

definition newParser :: "string \<Rightarrow> reader" where
  "newParser b = \<lparr>s = b, line = 1, col = 0, offset = 0\<rparr>"

definition syntaxError :: "reader \<Rightarrow> description \<Rightarrow> error" where
  "syntaxError r d = SyntaxError (line r) (col r) d"

definition expectedError :: "reader \<Rightarrow> string \<Rightarrow> rune \<Rightarrow> error" where
  "expectedError r expected got = syntaxError r (Expected expected got)"

definition isWhitespace :: "rune \<Rightarrow> bool" where
  "isWhitespace v =
    (v = rune CHR '' '' \<or> v = rune CHR 0x09 \<or> v = rune CHR 0x0A \<or> v = rune CHR 0x0D)"

definition isSpecialCharacter :: "rune \<Rightarrow> bool" where
  "isSpecialCharacter v = (v \<ge> 0 \<and> v \<le> 31)"

definition isDigit :: "rune \<Rightarrow> bool" where
  "isDigit v = (v \<ge> rune CHR ''0'' \<and> v \<le> rune CHR ''9'')"

definition isNaturalDigit :: "rune \<Rightarrow> bool" where
  "isNaturalDigit v = (v \<ge> rune CHR ''1'' \<and> v \<le> rune CHR ''9'')"

definition isHex :: "rune \<Rightarrow> bool" where
  "isHex v = (isDigit v \<or> v \<ge> rune CHR ''a'' \<and> v \<le> rune CHR ''f''
                \<or> v \<ge> rune CHR ''A'' \<and> v \<le> rune CHR ''F'')"


lemma DecodeRune_size:
  "p \<noteq> [] \<Longrightarrow> 1 \<le> snd (DecodeRune p) \<and> snd (DecodeRune p) \<le> length p"
  by (cases p) (auto simp: DecodeRune_def Let_def Suc_le_eq)

lemma peek_size:
  "\<not> isEOF r \<Longrightarrow> 1 \<le> snd (peek r) \<and> offset r + snd (peek r) \<le> length (s r)"
proof -
  assume a: "\<not> isEOF r"
  then have ne: "drop (offset r) (s r) \<noteq> []" by (simp add: isEOF_def)
  from DecodeRune_size [OF ne] a show ?thesis
    by (auto simp: peek_def Let_def isEOF_def split: prod.splits)
qed

lemma read_s [simp]: "s (snd (read r)) = s r"
  by (simp add: read_def Let_def split: prod.splits)

lemma read_offset: "\<not> isEOF r \<Longrightarrow> offset (snd (read r)) = offset r + snd (peek r)"
  by (simp add: read_def Let_def split: prod.splits)

lemma read_fst [simp]: "fst (read r) = fst (peek r)"
  by (simp add: read_def Let_def split: prod.splits)

lemma read_advances: "\<not> isEOF r \<Longrightarrow> offset r < offset (snd (read r))"
  using peek_size [of r] by (simp add: read_offset)

definition remaining :: "reader \<Rightarrow> nat" where
  "remaining r = length (s r) - offset r"

lemma read_remaining: "\<not> isEOF r \<Longrightarrow> remaining (snd (read r)) < remaining r"
  using read_advances [of r] by (simp add: remaining_def isEOF_def)

lemma read_remaining_le: "remaining (snd (read r)) \<le> remaining r"
  using read_remaining [of r] by (cases "isEOF r") (simp_all add: read_def split: prod.splits)

function eatWhitespace :: "reader \<Rightarrow> reader" where
  "eatWhitespace r =
    (if isEOF r then r
     else if \<not> isWhitespace (fst (peek r)) then r
     else eatWhitespace (snd (read r)))"
  by pat_completeness auto
termination
  by (relation "measure remaining") (simp_all add: read_remaining)


section \<open>Parser (main.go)\<close>

function digitLoop :: "reader \<Rightarrow> string \<Rightarrow> bool \<Rightarrow> reader \<times> string \<times> bool" where
  "digitLoop r sb hasDigit =
    (if isEOF r then (r, sb, hasDigit)
     else if \<not> isDigit (fst (peek r)) then (r, sb, hasDigit)
     else digitLoop (snd (read r)) (WriteRune sb (fst (read r))) True)"
  by pat_completeness auto
termination
  by (relation "measure (\<lambda>(r, sb, hasDigit). remaining r)") (simp_all add: read_remaining)

definition parseInteger :: "rune \<Rightarrow> reader \<Rightarrow> string \<Rightarrow> error + reader \<times> string" where
  "parseInteger start r sb =
    (let digits = (\<lambda>r' sb'.
           if start \<noteq> rune CHR ''0''
           then (let (r'', sb'', _) = digitLoop r' sb' False in Inr (r'', sb''))
           else Inr (r', sb'))
     in if start = rune CHR ''-'' then
          (let (v, r1) = read r in
           if v = rune CHR ''0'' then Inr (r1, WriteRune sb v)
           else if \<not> isNaturalDigit v
             then Inl (expectedError r1 (''digit '' @ [CHR 0x27] @ ''1-9'' @ [CHR 0x27]) v)
           else digits r1 (WriteRune sb v))
        else digits r sb)"

definition parseFraction :: "reader \<Rightarrow> string \<Rightarrow> error + reader \<times> string" where
  "parseFraction r sb =
    (if fst (peek r) = rune CHR ''.'' then
       (let sb1 = WriteRune sb (rune CHR ''.'');
            r1 = snd (read r);
            (r2, sb2, hasDigit) = digitLoop r1 sb1 False
        in if \<not> hasDigit then Inl (syntaxError r2 ExpectedDigitAfterFraction)
           else Inr (r2, sb2))
     else Inr (r, sb))"

definition parseExponent :: "reader \<Rightarrow> string \<Rightarrow> error + reader \<times> string" where
  "parseExponent r sb =
    (let v = fst (peek r) in
     if v = rune CHR ''e'' \<or> v = rune CHR ''E'' then
       (let sb1 = WriteRune sb v;
            r1 = snd (read r);
            v1 = fst (peek r1);
            (r2, sb2) = (if v1 = rune CHR ''+'' \<or> v1 = rune CHR ''-''
                         then (snd (read r1), WriteRune sb1 v1) else (r1, sb1));
            (r3, sb3, hasDigit) = digitLoop r2 sb2 False
        in if \<not> hasDigit then Inl (syntaxError r3 ExpectedDigitAfterExponent)
           else Inr (r3, sb3))
     else Inr (r, sb))"

definition parseNumber :: "rune \<Rightarrow> reader \<Rightarrow> error + jsonElement \<times> reader" where
  "parseNumber start r =
    (case parseInteger start r (WriteRune [] start) of
       Inl e \<Rightarrow> Inl e
     | Inr (r1, sb1) \<Rightarrow>
        (case parseFraction r1 sb1 of
           Inl e \<Rightarrow> Inl e
         | Inr (r2, sb2) \<Rightarrow>
            (case parseExponent r2 sb2 of
               Inl e \<Rightarrow> Inl e
             | Inr (r3, sb3) \<Rightarrow> Inr (numberKind sb3, r3))))"

fun match :: "string \<Rightarrow> reader \<Rightarrow> (bool \<times> rune \<times> rune) \<times> reader" where
  "match [] r = ((True, 0, 0), r)"
| "match (ss # rest) r =
    (let (v, r1) = read r in
     if v \<noteq> rune ss then ((False, rune ss, v), r1) else match rest r1)"

definition parseBool :: "rune \<Rightarrow> reader \<Rightarrow> error + jsonElement \<times> reader" where
  "parseBool start r =
    (if start = rune CHR ''t'' then
       (let ((ok, expected, got), r1) = match ''rue'' r in
        if ok then Inr (booleanKind True, r1)
        else Inl (expectedError r1 (WriteRune [] expected) got))
     else if start = rune CHR ''f'' then
       (let ((ok, expected, got), r1) = match ''alse'' r in
        if ok then Inr (booleanKind False, r1)
        else Inl (expectedError r1 (WriteRune [] expected) got))
     else Inl Panic)"

definition parseNull :: "reader \<Rightarrow> error + jsonElement \<times> reader" where
  "parseNull r =
    (let ((ok, expected, got), r1) = match ''ull'' r in
     if ok then Inr (nullKind, r1)
     else Inl (expectedError r1 (WriteRune [] expected) got))"

text \<open>The \<open>for range 4\<close> loop of the \<open>u\<close> escape; \<open>v\<close> is the rune \<open>u\<close> itself, which
  is what the source passes to \<open>expectedError\<close>.\<close>

fun hexDigits :: "nat \<Rightarrow> rune \<Rightarrow> reader \<Rightarrow> error + reader" where
  "hexDigits 0 v r = Inr r"
| "hexDigits (Suc n) v r =
    (let (h, r1) = read r in
     if \<not> isHex h then Inl (expectedError r1 ''hexadecimal digit'' v)
     else hexDigits n v r1)"

definition escapeSwitch :: "rune \<Rightarrow> reader \<Rightarrow> error + reader" where
  "escapeSwitch v r =
    (if v = rune CHR 0x22 \<or> v = rune CHR 0x5C \<or> v = rune CHR ''/'' \<or> v = rune CHR ''b''
        \<or> v = rune CHR ''f'' \<or> v = rune CHR ''n'' \<or> v = rune CHR ''r'' \<or> v = rune CHR ''t''
     then Inr r
     else if v = rune CHR ''u'' then hexDigits 4 v r
     else Inl (syntaxError r (InvalidEscape v)))"

lemma hexDigits_remaining: "hexDigits n v r = Inr r' \<Longrightarrow> remaining r' \<le> remaining r"
proof (induction n arbitrary: r)
  case 0
  then show ?case by simp
next
  case (Suc n)
  then show ?case
    using read_remaining_le [of r]
    by (fastforce simp: Let_def split: prod.splits if_splits)
qed

lemma escapeSwitch_remaining: "escapeSwitch v r = Inr r' \<Longrightarrow> remaining r' \<le> remaining r"
  by (auto simp: escapeSwitch_def split: if_splits dest: hexDigits_remaining)

function stringLoop :: "reader \<Rightarrow> bool \<Rightarrow> error + reader" where
  "stringLoop r escape =
    (if isEOF r then Inr r
     else
      (let v = fst (read r); r1 = snd (read r) in
       if \<not> escape \<and> v = rune CHR 0x22 then Inr r1
       else if \<not> escape \<and> isSpecialCharacter v
         then Inl (syntaxError r1 (UnescapedSpecial v))
       else
        (case (if escape then escapeSwitch v r1 else Inr r1) of
           Inl e \<Rightarrow> Inl e
         | Inr r2 \<Rightarrow> stringLoop r2 (\<not> escape \<and> v = rune CHR 0x5C))))"
  by pat_completeness auto
termination
proof (relation "measure (\<lambda>(r, escape). remaining r)", goal_cases)
  case 1
  show ?case by simp
next
  case (2 r escape v r1 r2)
  then have "remaining r2 \<le> remaining r1"
    by (auto split: if_splits dest: escapeSwitch_remaining)
  moreover have "remaining r1 < remaining r"
    using 2 by (simp add: read_remaining)
  ultimately show ?case by simp
qed

definition parseRawString :: "reader \<Rightarrow> error + string \<times> reader" where
  "parseRawString r =
    (if fst (peek r) = rune CHR 0x22 then Inr ([], snd (read r))
     else
      (let start = offset r in
       case stringLoop r False of
         Inl e \<Rightarrow> Inl e
       | Inr r1 \<Rightarrow>
          if start = offset r1 then Inl (syntaxError r1 ExpectedQuoteButEof)
          else if offset r1 - 1 < start \<or> length (s r1) < offset r1 - 1 then Inl Panic
          else Inr (take (offset r1 - 1 - start) (drop start (s r1)), r1)))"

definition parseString :: "reader \<Rightarrow> error + jsonElement \<times> reader" where
  "parseString r =
    (case parseRawString r of
       Inl e \<Rightarrow> Inl e
     | Inr (raw, r1) \<Rightarrow> Inr (stringKind raw, r1))"


text \<open>
  The value parsers are mutually recursive, and the loops of \<open>parseObject\<close> and
  \<open>parseArray\<close> (here \<open>parseObject_loop\<close> and \<open>parseArray_loop\<close>, which carry the slice
  built so far) call them. The recursion is bounded by a fuel argument: it is decremented
  where \<open>parseValue\<close> descends into a container and at each turn of a loop, and
  \<open>OutOfFuel\<close> is returned when it is used up.
\<close>

fun parseValue :: "nat \<Rightarrow> reader \<Rightarrow> error + jsonElement \<times> reader"
and parseObject :: "nat \<Rightarrow> reader \<Rightarrow> error + jsonElement \<times> reader"
and parseObject_loop :: "nat \<Rightarrow> reader \<Rightarrow> pair list \<Rightarrow> error + pair list \<times> reader"
and parseMember :: "nat \<Rightarrow> reader \<Rightarrow> error + pair option \<times> reader"
and parseArray :: "nat \<Rightarrow> reader \<Rightarrow> error + jsonElement \<times> reader"
and parseArray_loop :: "nat \<Rightarrow> reader \<Rightarrow> jsonElement list \<Rightarrow> error + jsonElement list \<times> reader"
where
  "parseValue 0 r = Inl OutOfFuel"
| "parseValue (Suc n) r =
    (let (v, r1) = read r in
     if v = rune CHR ''{'' then parseObject n r1
     else if v = rune CHR ''['' then parseArray n r1
     else if v = rune CHR 0x22 then parseString r1
     else if v = rune CHR ''-'' \<or> isDigit v then parseNumber v r1
     else if v = rune CHR ''t'' \<or> v = rune CHR ''f'' then parseBool v r1
     else if v = rune CHR ''n'' then parseNull r1
     else Inl (syntaxError r1 (UnexpectedToken v)))"
| "parseObject n r =
    (case parseObject_loop n (eatWhitespace r) [] of
       Inl e \<Rightarrow> Inl e
     | Inr (members, r1) \<Rightarrow>
        (let (v, r2) = read r1 in
         if v \<noteq> rune CHR ''}'' then Inl (expectedError r2 ''}'' v)
         else Inr (objectKind members, r2)))"
| "parseObject_loop 0 r members = Inl OutOfFuel"
| "parseObject_loop (Suc n) r members =
    (if isEOF r then Inr (members, r)
     else if fst (peek r) = rune CHR ''}'' then Inr (members, r)
     else
      (case (if members \<noteq> [] then
               (let (v, r1) = read r in
                if v \<noteq> rune CHR '','' then Inl (expectedError r1 '','' v)
                else Inr (eatWhitespace r1))
             else Inr r) of
         Inl e \<Rightarrow> Inl e
       | Inr r2 \<Rightarrow>
          (case parseMember (Suc n) r2 of
             Inl e \<Rightarrow> Inl e
           | Inr (None, r3) \<Rightarrow>
              if members \<noteq> [] then Inl (syntaxError r3 ExpectedObjectMember)
              else Inr (members, r3)
           | Inr (Some member, r3) \<Rightarrow> parseObject_loop n r3 (members @ [member]))))"
| "parseMember n r =
    (if fst (peek r) \<noteq> rune CHR 0x22 then Inr (None, r)
     else
      (case parseRawString (snd (read r)) of
         Inl e \<Rightarrow> Inl e
       | Inr (key, r1) \<Rightarrow>
          (let (v, r2) = read (eatWhitespace r1) in
           if v \<noteq> rune CHR '':'' then Inl (expectedError r2 '':'' v)
           else
            (case parseValue n (eatWhitespace r2) of
               Inl e \<Rightarrow> Inl e
             | Inr (val, r3) \<Rightarrow> Inr (Some (key, val), eatWhitespace r3)))))"
| "parseArray n r =
    (case parseArray_loop n (eatWhitespace r) [] of
       Inl e \<Rightarrow> Inl e
     | Inr (elements, r1) \<Rightarrow>
        (let (v, r2) = read (eatWhitespace r1) in
         if v \<noteq> rune CHR '']'' then Inl (expectedError r2 '']'' v)
         else Inr (arrayKind elements, r2)))"
| "parseArray_loop 0 r elements = Inl OutOfFuel"
| "parseArray_loop (Suc n) r elements =
    (if isEOF r then Inr (elements, r)
     else if fst (peek r) = rune CHR '']'' then Inr (elements, r)
     else
      (case (if elements \<noteq> [] then
               (let (v, r1) = read r in
                if v \<noteq> rune CHR '','' then Inl (expectedError r1 '','' v)
                else Inr (eatWhitespace r1))
             else Inr r) of
         Inl e \<Rightarrow> Inl e
       | Inr r2 \<Rightarrow>
          (case parseValue (Suc n) r2 of
             Inl e \<Rightarrow> Inl e
           | Inr (el, r3) \<Rightarrow> parseArray_loop n (eatWhitespace r3) (elements @ [el]))))"

definition parseRoot :: "nat \<Rightarrow> reader \<Rightarrow> error + jsonElement \<times> reader" where
  "parseRoot n r =
    (case parseValue n (eatWhitespace r) of
       Inl e \<Rightarrow> Inl e
     | Inr (root, r1) \<Rightarrow>
        (let r2 = eatWhitespace r1 in
         if \<not> isEOF r2 then (let (v, r3) = read r2 in Inl (expectedError r3 ''eof'' v))
         else Inr (root, r2)))"

text \<open>
  \<open>parse\<close> on a fresh parser over the buffer \<open>b\<close>, as \<open>run\<close> calls it. The fuel is one
  more than the length of the buffer, which is never used up (\<open>parse_fuel\<close> below).
\<close>

definition parse :: "string \<Rightarrow> error + jsonElement \<times> reader" where
  "parse b = parseRoot (Suc (length b)) (newParser b)"


section \<open>Renderers (format.go)\<close>

definition kindString :: "jsonElement \<Rightarrow> string" where
  "kindString e =
    (case e of
       objectKind _ \<Rightarrow> ''object''
     | arrayKind _ \<Rightarrow> ''array''
     | stringKind _ \<Rightarrow> ''string''
     | numberKind _ \<Rightarrow> ''number''
     | booleanKind _ \<Rightarrow> ''boolean''
     | nullKind \<Rightarrow> ''null'')"

text \<open>\<open>fmt.Sprintf("%v", b)\<close> for a \<open>bool\<close>.\<close>

definition fmtBool :: "bool \<Rightarrow> string" where
  "fmtBool b = (if b then ''true'' else ''false'')"

text \<open>
  \<open>astToString\<close>. The closure \<open>walk\<close> shares the counter \<open>indent\<close> and the builder
  \<open>sb\<close>; the model passes the pair of them. \<open>ast_write\<close> is the closure \<open>write\<close>,
  \<open>ast_elements\<close> and \<open>ast_pairs\<close> are the two \<open>range\<close> loops of the type switch. A
  scalar is written by the \<open>bool\<close> case or by the \<open>default\<close> case, where
  \<open>fmt.Sprintf("%s", e.value)\<close> gives the bytes of a string or a number and
  \<open>%!s(<nil>)\<close> for the \<open>nil\<close> payload of a null element. \<open>indent\<close> is never
  decremented at 0: every decrement follows an increment.
\<close>

definition ast_write :: "nat \<times> string \<Rightarrow> string \<Rightarrow> nat \<times> string" where
  "ast_write st str = (fst st, snd st @ replicate (fst st) CHR '' '' @ str)"

definition ast_put :: "nat \<times> string \<Rightarrow> string \<Rightarrow> nat \<times> string" where
  "ast_put st str = (fst st, snd st @ str)"

fun ast_walk :: "jsonElement \<Rightarrow> nat \<times> string \<Rightarrow> nat \<times> string"
and ast_elements :: "jsonElement list \<Rightarrow> nat \<times> string \<Rightarrow> nat \<times> string"
and ast_pairs :: "pair list \<Rightarrow> nat \<times> string \<Rightarrow> nat \<times> string"
where
  "ast_walk e st =
    (let st1 = ast_put (ast_write st (kindString e)) '':'';
         st2 = (case e of
                  objectKind _ \<Rightarrow> ast_put (fst st1 + 1, snd st1) [CHR 0x0A]
                | arrayKind _ \<Rightarrow> ast_put (fst st1 + 1, snd st1) [CHR 0x0A]
                | _ \<Rightarrow> st1);
         st3 = (case e of
                  arrayKind v \<Rightarrow> ast_elements v st2
                | objectKind v \<Rightarrow> ast_pairs v st2
                | booleanKind b \<Rightarrow> ast_put st2 (fmtBool b)
                | stringKind raw \<Rightarrow> ast_put st2 raw
                | numberKind txt \<Rightarrow> ast_put st2 txt
                | nullKind \<Rightarrow> ast_put st2 ''%!s(<nil>)'');
         st4 = ast_put st3 [CHR 0x0A]
     in case e of objectKind _ \<Rightarrow> (fst st4 - 1, snd st4) | _ \<Rightarrow> st4)"
| "ast_elements [] st = st"
| "ast_elements (el # v) st = ast_elements v (ast_walk el st)"
| "ast_pairs [] st = st"
| "ast_pairs (p # v) st =
    (let st1 = ast_put (ast_write st ''key:'') (fst p);
         st2 = ast_put st1 [CHR 0x0A];
         st3 = ast_put (ast_write st2 ''value: '') [CHR 0x0A];
         st4 = ast_walk (snd p) (fst st3 + 1, snd st3)
     in ast_pairs v (fst st4 - 1, snd st4))"

definition astToString :: "jsonElement \<Rightarrow> string" where
  "astToString el = snd (ast_walk el (0, []))"


text \<open>
  \<open>minify\<close>: \<open>min_walk\<close> is the closure \<open>walk\<close>, with the builder passed along;
  \<open>min_elements\<close> and \<open>min_pairs\<close> are the two \<open>range\<close> loops, which write a comma
  after every item but the last (\<open>i != len(val)-1\<close>).
\<close>

fun min_walk :: "jsonElement \<Rightarrow> string \<Rightarrow> string"
and min_elements :: "jsonElement list \<Rightarrow> string \<Rightarrow> string"
and min_pairs :: "pair list \<Rightarrow> string \<Rightarrow> string"
where
  "min_walk (arrayKind val) sb = min_elements val (sb @ ''['') @ '']''"
| "min_walk (objectKind val) sb = min_pairs val (sb @ ''{'') @ ''}''"
| "min_walk (stringKind raw) sb = sb @ [CHR 0x22] @ raw @ [CHR 0x22]"
| "min_walk (numberKind txt) sb = sb @ txt"
| "min_walk (booleanKind b) sb = sb @ fmtBool b"
| "min_walk nullKind sb = sb @ ''null''"
| "min_elements [] sb = sb"
| "min_elements (el # val) sb =
    (let sb1 = min_walk el sb in
     min_elements val (if val \<noteq> [] then sb1 @ '','' else sb1))"
| "min_pairs [] sb = sb"
| "min_pairs (p # val) sb =
    (let sb1 = min_walk (snd p) (sb @ [CHR 0x22] @ fst p @ [CHR 0x22] @ '':'') in
     min_pairs val (if val \<noteq> [] then sb1 @ '','' else sb1))"

definition minify :: "jsonElement \<Rightarrow> string" where
  "minify e = min_walk e []"

text \<open>
  \<open>pretty\<close>: the closures share \<open>lvl\<close>, \<open>ignoreLvl\<close> and the builder; the model passes
  the triple. \<open>pretty_write\<close> is the closure \<open>write\<close>. \<open>lvl\<close> is never decremented at 0.
\<close>

type_synonym printer = "nat \<times> bool \<times> string"

definition pretty_write :: "nat \<Rightarrow> printer \<Rightarrow> string \<Rightarrow> printer" where
  "pretty_write indent st str =
    (case st of (lvl, ignoreLvl, sb) \<Rightarrow>
       (lvl, False,
        (if \<not> ignoreLvl then sb @ replicate (lvl * indent) CHR '' '' else sb @ '' '') @ str))"

definition pretty_put :: "printer \<Rightarrow> string \<Rightarrow> printer" where
  "pretty_put st str = (case st of (lvl, ignoreLvl, sb) \<Rightarrow> (lvl, ignoreLvl, sb @ str))"

fun pretty_walk :: "nat \<Rightarrow> jsonElement \<Rightarrow> printer \<Rightarrow> printer"
and pretty_elements :: "nat \<Rightarrow> jsonElement list \<Rightarrow> printer \<Rightarrow> printer"
and pretty_pairs :: "nat \<Rightarrow> pair list \<Rightarrow> printer \<Rightarrow> printer"
where
  "pretty_walk indent (arrayKind val) st =
    (let st1 = pretty_write indent st ''['' in
     if val = [] then pretty_put st1 '']''
     else
      (case pretty_put st1 [CHR 0x0A] of (lvl, ignoreLvl, sb) \<Rightarrow>
        (case pretty_elements indent val (lvl + 1, ignoreLvl, sb) of (lvl', ignoreLvl', sb') \<Rightarrow>
           pretty_write indent (lvl' - 1, ignoreLvl', sb') '']'')))"
| "pretty_walk indent (objectKind val) st =
    (let st1 = pretty_write indent st ''{'' in
     if val = [] then pretty_put st1 ''}''
     else
      (case pretty_put st1 [CHR 0x0A] of (lvl, ignoreLvl, sb) \<Rightarrow>
        (case pretty_pairs indent val (lvl + 1, ignoreLvl, sb) of (lvl', ignoreLvl', sb') \<Rightarrow>
           pretty_write indent (lvl' - 1, ignoreLvl', sb') ''}'')))"
| "pretty_walk indent (stringKind raw) st =
    pretty_put (pretty_put (pretty_write indent st [CHR 0x22]) raw) [CHR 0x22]"
| "pretty_walk indent (numberKind txt) st = pretty_write indent st txt"
| "pretty_walk indent (booleanKind b) st = pretty_write indent st (fmtBool b)"
| "pretty_walk indent nullKind st = pretty_write indent st ''null''"
| "pretty_elements indent [] st = st"
| "pretty_elements indent (el # val) st =
    (let st1 = pretty_walk indent el st;
         st2 = (if val \<noteq> [] then pretty_put st1 '','' else st1)
     in pretty_elements indent val (pretty_put st2 [CHR 0x0A]))"
| "pretty_pairs indent [] st = st"
| "pretty_pairs indent (p # val) st =
    (let st1 = pretty_put (pretty_write indent st [CHR 0x22]) (fst p);
         st2 = pretty_put (pretty_put st1 [CHR 0x22]) '':'';
         st3 = pretty_walk indent (snd p) (case st2 of (lvl, _, sb) \<Rightarrow> (lvl, True, sb));
         st4 = (if val \<noteq> [] then pretty_put st3 '','' else st3)
     in pretty_pairs indent val (pretty_put st4 [CHR 0x0A]))"

definition pretty :: "jsonElement \<Rightarrow> nat \<Rightarrow> string" where
  "pretty e indent = (case pretty_walk indent e (0, False, []) of (_, _, sb) \<Rightarrow> sb)"


section \<open>Worked examples of the specification\<close>

text \<open>
  C6. Parsing the object text \<^verbatim>\<open>{"a": "b\"c"}\<close> succeeds; the string element stores the
  four source bytes \<^verbatim>\<open>b\"c\<close> with the escape left undecoded, and \<open>minify\<close> of the tree
  writes the string back as \<^verbatim>\<open>"b\"c"\<close> inside the minified object.
\<close>

theorem parse_escaped_quote_raw:
  \<open>(\<exists>r. parse (''{"a": "b'' @ [CHR 0x5C] @ ''"c"}'') =
          Inr (objectKind [(''a'', stringKind (''b'' @ [CHR 0x5C] @ ''"c''))], r)) \<and>
   minify (objectKind [(''a'', stringKind (''b'' @ [CHR 0x5C] @ ''"c''))]) =
     ''{"a":"b'' @ [CHR 0x5C] @ ''"c"}''\<close>
proof -
  have \<open>parse (''{"a": "b'' @ [CHR 0x5C] @ ''"c"}'') =
      Inr (objectKind [(''a'', stringKind (''b'' @ [CHR 0x5C] @ ''"c''))],
           \<lparr>s = ''{"a": "b'' @ [CHR 0x5C] @ ''"c"}'', line = 1, col = 13, offset = 13\<rparr>)\<close>
    by code_simp
  moreover have \<open>minify (objectKind [(''a'', stringKind (''b'' @ [CHR 0x5C] @ ''"c''))]) =
     ''{"a":"b'' @ [CHR 0x5C] @ ''"c"}''\<close>
    by code_simp
  ultimately show ?thesis by blast
qed

text \<open>
  C7. \<open>pretty\<close> of the parsed text \<^verbatim>\<open>[1,2,3]\<close> with indent 2 is the five lines
  \<^verbatim>\<open>[\<close>, \<^verbatim>\<open>  1,\<close>, \<^verbatim>\<open>  2,\<close>, \<^verbatim>\<open>  3\<close>, \<^verbatim>\<open>]\<close> with no final newline, and both
  \<open>minify\<close> and \<open>pretty\<close> (indent 2) of the parsed text \<^verbatim>\<open>{}\<close> are the two characters
  \<^verbatim>\<open>{}\<close>.
\<close>

theorem pretty_minify_examples:
  "(\<exists>e r. parse ''[1,2,3]'' = Inr (e, r) \<and>
          pretty e 2 = ''[\<newline>  1,\<newline>  2,\<newline>  3\<newline>]'') \<and>
   (\<exists>e r. parse ''{}'' = Inr (e, r) \<and> minify e = ''{}'' \<and> pretty e 2 = ''{}'')"
proof -
  have "parse ''[1,2,3]'' =
      Inr (arrayKind [numberKind ''1'', numberKind ''2'', numberKind ''3''],
           \<lparr>s = ''[1,2,3]'', line = 1, col = 7, offset = 7\<rparr>)"
    by code_simp
  moreover have "pretty (arrayKind [numberKind ''1'', numberKind ''2'', numberKind ''3'']) 2 =
      ''[\<newline>  1,\<newline>  2,\<newline>  3\<newline>]''"
    by code_simp
  moreover have "parse ''{}'' = Inr (objectKind [], \<lparr>s = ''{}'', line = 1, col = 2, offset = 2\<rparr>)"
    by code_simp
  moreover have "minify (objectKind []) = ''{}''" "pretty (objectKind []) 2 = ''{}''"
    by code_simp+
  ultimately show ?thesis by blast
qed

section \<open>Where the code departs from the specification\<close>

text \<open>
  C3. The specification has \<open>parseRawString\<close> fail on a body that ends before an
  unescaped closing quote. On the input \<^verbatim>\<open>"abc\<close>, after the opening quote has been read,
  the loop runs to the end of the input and the final check \<open>start == p.r.offset\<close> does
  not fire: the call succeeds and returns \<^verbatim>\<open>ab\<close>, the body without its last byte.
\<close>

theorem parseRawString_unterminated:
  \<open>parseRawString \<lparr>s = ''"abc'', line = 1, col = 1, offset = 1\<rparr> =
     Inr (''ab'', \<lparr>s = ''"abc'', line = 1, col = 4, offset = 4\<rparr>)\<close>
  by code_simp

text \<open>
  C2. The specification has \<open>parse\<close> accept the output of \<open>minify\<close> on every parsed
  tree. \<open>parse\<close> accepts the unterminated string \<^verbatim>\<open>"\u1234\<close> (the defect of C3) with
  the payload \<^verbatim>\<open>\u123\<close>; \<open>minify\<close> of that tree is \<^verbatim>\<open>"\u123"\<close>, which \<open>parse\<close>
  rejects.
\<close>

theorem minify_output_rejected:
  \<open>(\<exists>r. parse (''"'' @ [CHR 0x5C] @ ''u1234'') = Inr (stringKind ([CHR 0x5C] @ ''u123''), r)) \<and>
   minify (stringKind ([CHR 0x5C] @ ''u123'')) = ''"'' @ [CHR 0x5C] @ ''u123"'' \<and>
   parse (''"'' @ [CHR 0x5C] @ ''u123"'') =
     Inl (SyntaxError 1 7 (Expected ''hexadecimal digit'' (rune CHR ''u'')))\<close>
proof -
  have \<open>parse (''"'' @ [CHR 0x5C] @ ''u1234'') =
      Inr (stringKind ([CHR 0x5C] @ ''u123''),
           \<lparr>s = ''"'' @ [CHR 0x5C] @ ''u1234'', line = 1, col = 7, offset = 7\<rparr>)\<close>
    by code_simp
  moreover have \<open>minify (stringKind ([CHR 0x5C] @ ''u123'')) = ''"'' @ [CHR 0x5C] @ ''u123"''\<close>
    by code_simp
  moreover have \<open>parse (''"'' @ [CHR 0x5C] @ ''u123"'') =
     Inl (SyntaxError 1 7 (Expected ''hexadecimal digit'' (rune CHR ''u'')))\<close>
    by code_simp
  ultimately show ?thesis by blast
qed

text \<open>
  C4. The specification has the indentation of the structural dump return to the
  container's level after its subtree. \<open>walk\<close> increments \<open>indent\<close> for objects and
  arrays and decrements it for objects only: in the dump of \<^verbatim>\<open>[1,[],2]\<close> the sibling
  \<open>1\<close> before the inner array is indented by one space and the sibling \<open>2\<close> after it
  by two.
\<close>

theorem astToString_array_indent:
  "(\<exists>r. parse ''[1,[],2]'' =
          Inr (arrayKind [numberKind ''1'', arrayKind [], numberKind ''2''], r)) \<and>
   astToString (arrayKind [numberKind ''1'', arrayKind [], numberKind ''2'']) =
     ''array:\<newline> number:1\<newline> array:\<newline>\<newline>  number:2\<newline>\<newline>''"
proof -
  have "parse ''[1,[],2]'' =
      Inr (arrayKind [numberKind ''1'', arrayKind [], numberKind ''2''],
           \<lparr>s = ''[1,[],2]'', line = 1, col = 8, offset = 8\<rparr>)"
    by code_simp
  moreover have "astToString (arrayKind [numberKind ''1'', arrayKind [], numberKind ''2'']) =
     ''array:\<newline> number:1\<newline> array:\<newline>\<newline>  number:2\<newline>\<newline>''"
    by code_simp
  ultimately show ?thesis by blast
qed

end
